theory Spec2Isabelle
  imports Complex_Main "HOL-Library.Char_ord" "HOL-Library.List_Lexorder"
    "HOL-Library.Multiset"
begin

section \<open>Domain model (packages/core/src/types.ts)\<close>

datatype Sport = swim | bike | run | strength | rest

datatype Intensity = z1 | z2 | z3 | z4 | z5

text \<open>
  A \<open>Session\<close> of the source. \<open>date\<close> is the string \<open>YYYY-MM-DD\<close>; the optional
  fields \<open>notes\<close> and \<open>tags\<close> are \<open>None\<close> when absent. \<open>durationMin\<close> is a
  JavaScript number holding whole minutes, modelled as an integer. The field \<open>notes\<close> is
  written \<open>notes'\<close>, since \<open>notes\<close> is a reserved word of the theory language.
\<close>

record Session =
  date :: string
  sport :: Sport
  title :: string
  durationMin :: int
  intensity :: Intensity
  notes' :: "string option"
  tags :: "string list option"

record WeekPlan =
  startDate :: string
  sessions :: "Session list"
  warnings :: "string list"
  appliedRules :: "string list"

record Last7dStats =
  totalMinutes :: int
  byDate :: "(string \<times> int) list"

record Fatigue =
  readiness :: int
  sleepScore :: "int option"

record RulesContext =
  last7dStats :: Last7dStats
  todayFatigue :: "Fatigue option"

definition HARD_INTENSITIES :: "Intensity set" where
  "HARD_INTENSITIES = {z4, z5}"

definition HARD_TAGS :: "string set" where
  "HARD_TAGS = {''vo2'', ''threshold''}"

definition isHardSession :: "Session \<Rightarrow> bool" where
  "isHardSession session =
     (if intensity session \<in> HARD_INTENSITIES then True
      else if (case tags session of None \<Rightarrow> False
               | Some ts \<Rightarrow> list_ex (\<lambda>tag. tag \<in> HARD_TAGS) ts) then True
      else False)"

subsection \<open>String primitives of the runtime\<close>

text \<open>
  \<open>String.prototype.trim\<close> on the ASCII white space characters (tab, line feed,
  vertical tab, form feed, carriage return, space).
\<close>

definition isWhiteSpace :: "char \<Rightarrow> bool" where
  "isWhiteSpace c = (c \<in> {CHR 0x09, CHR 0x0A, CHR 0x0B, CHR 0x0C, CHR 0x0D, CHR 0x20})"

definition trim :: "string \<Rightarrow> string" where
  "trim s = rev (dropWhile isWhiteSpace (rev (dropWhile isWhiteSpace s)))"

text \<open>\<open>session.notes || ''\<close>: an absent note and the empty note both give the empty string.\<close>

definition notesOrEmpty :: "string option \<Rightarrow> string" where
  "notesOrEmpty n = (case n of None \<Rightarrow> [] | Some s \<Rightarrow> s)"

text \<open>The template \<open>`${session.notes || ''}\nTEXT`.trim()\<close>.\<close>

definition appendNote :: "string option \<Rightarrow> string \<Rightarrow> string" where
  "appendNote n txt = trim (notesOrEmpty n @ [CHR 0x0A] @ txt)"

text \<open>Decimal rendering of an integer inside a template string.\<close>

definition digitChar :: "nat \<Rightarrow> char" where
  "digitChar n = ''0123456789'' ! n"

function showNat :: "nat \<Rightarrow> string" where
  "showNat n = (if n < 10 then [digitChar n] else showNat (n div 10) @ [digitChar (n mod 10)])"
  by pat_completeness auto
termination
  by (relation "measure id") auto

definition showInt :: "int \<Rightarrow> string" where
  "showInt i = (if i < 0 then CHR ''-'' # showNat (nat (- i)) else showNat (nat i))"

definition downgradeToEasy :: "Session \<Rightarrow> string \<Rightarrow> Session" where
  "downgradeToEasy session reason =
     session\<lparr> intensity := z2,
              title := title session @ '' (downgraded to Z2)'',
              notes' := Some (appendNote (notes' session) (''Downgraded: '' @ reason)),
              tags := map_option (filter (\<lambda>tag. tag \<notin> HARD_TAGS)) (tags session) \<rparr>"

subsection \<open>Calendar primitives of the runtime\<close>

text \<open>
  The source reads a session date three ways: \<open>getDay(parseISO(date))\<close> for the weekday,
  \<open>new Date(date + 'T00:00:00').getTime()\<close> for the local midnight in milliseconds, and
  \<open>localeCompare\<close> for the order. They are modelled on strings of the form
  \<open>YYYY-MM-DD\<close> naming a day of the proleptic Gregorian calendar; any other string is an
  invalid date (\<open>None\<close>, the runtime's \<open>Invalid Date\<close> / \<open>NaN\<close>).

  \<open>new Date\<close> reads a date and time without an offset as local time of the process. The
  time zone of the process is therefore a parameter \<open>tz\<close> of everything that depends on
  local midnights: a zone gives, for each calendar day, the offset from UTC in milliseconds (positive
  east of Greenwich) in force at the local midnight that starts the day.
\<close>

type_synonym TimeZone = "nat \<times> nat \<times> nat \<Rightarrow> int"

definition digitValue :: "char \<Rightarrow> nat option" where
  "digitValue c =
     (let n = (of_char c :: nat) in if 48 \<le> n \<and> n \<le> 57 then Some (n - 48) else None)"

fun parseDigits :: "nat \<Rightarrow> string \<Rightarrow> nat option" where
  "parseDigits acc [] = Some acc"
| "parseDigits acc (c # cs) =
     (case digitValue c of None \<Rightarrow> None | Some d \<Rightarrow> parseDigits (10 * acc + d) cs)"

definition isLeapYear :: "nat \<Rightarrow> bool" where
  "isLeapYear y = (y mod 4 = 0 \<and> (y mod 100 \<noteq> 0 \<or> y mod 400 = 0))"

definition daysInMonth :: "nat \<Rightarrow> nat \<Rightarrow> nat" where
  "daysInMonth y m =
     (if m = 2 then (if isLeapYear y then 29 else 28)
      else if m = 4 \<or> m = 6 \<or> m = 9 \<or> m = 11 then 30 else 31)"

definition parseYMD :: "string \<Rightarrow> (nat \<times> nat \<times> nat) option" where
  "parseYMD s =
     (if length s = 10 \<and> s ! 4 = CHR ''-'' \<and> s ! 7 = CHR ''-'' then
        (case (parseDigits 0 (take 4 s), parseDigits 0 (take 2 (drop 5 s)),
               parseDigits 0 (drop 8 s)) of
           (Some y, Some m, Some d) \<Rightarrow>
             if 1 \<le> m \<and> m \<le> 12 \<and> 1 \<le> d \<and> d \<le> daysInMonth y m then Some (y, m, d) else None
         | _ \<Rightarrow> None)
      else None)"

text \<open>
  Days from 0000-01-01 to the first day of year \<open>y\<close>, and from the first day of a
  year to the first day of its month \<open>m\<close>.
\<close>

definition daysBeforeYear :: "nat \<Rightarrow> int" where
  "daysBeforeYear y =
     365 * int y + int ((y + 3) div 4) - int ((y + 99) div 100) + int ((y + 399) div 400)"

definition daysBeforeMonth :: "nat \<Rightarrow> nat \<Rightarrow> int" where
  "daysBeforeMonth y m =
     [0, 31, 59, 90, 120, 151, 181, 212, 243, 273, 304, 334] ! (m - 1)
       + (if 2 < m \<and> isLeapYear y then 1 else 0)"

text \<open>The day number of a date, counted from 1970-01-01.\<close>

definition dayNumber :: "nat \<times> nat \<times> nat \<Rightarrow> int" where
  "dayNumber ymd =
     (case ymd of (y, m, d) \<Rightarrow>
        daysBeforeYear y + daysBeforeMonth y m + (int d - 1) - daysBeforeYear 1970)"

definition epochDay :: "string \<Rightarrow> int option" where
  "epochDay s = map_option dayNumber (parseYMD s)"

text \<open>\<open>parseISO\<close> of a plain date, as a day number.\<close>

definition parseISO :: "string \<Rightarrow> int option" where
  "parseISO s = epochDay s"

text \<open>\<open>getDay\<close>: 0 is Sunday; 1970-01-01 was a Thursday. \<open>None\<close> is \<open>NaN\<close>.\<close>

definition getDay :: "int option \<Rightarrow> nat option" where
  "getDay d = map_option (\<lambda>n. nat ((n + 4) mod 7)) d"

text \<open>
  \<open>new Date(s).getTime()\<close> for a string \<open>YYYY-MM-DDT00:00:00\<close>: the milliseconds from
  1970-01-01T00:00:00Z to the local midnight of the day, in the zone \<open>tz\<close>.
\<close>

definition getTime :: "TimeZone \<Rightarrow> string \<Rightarrow> int option" where
  "getTime tz s =
     (if drop 10 s = ''T00:00:00''
      then map_option (\<lambda>ymd. dayNumber ymd * 86400000 - tz ymd) (parseYMD (take 10 s))
      else None)"

definition isNextDay :: "TimeZone \<Rightarrow> string \<Rightarrow> string \<Rightarrow> bool" where
  "isNextDay tz date1 date2 =
     (case (getTime tz (date1 @ ''T00:00:00''), getTime tz (date2 @ ''T00:00:00'')) of
        (Some d1, Some d2) \<Rightarrow>
          (let diff = d2 - d1; dayInMs = 24 * 60 * 60 * 1000 in diff = dayInMs)
      | _ \<Rightarrow> False)"

text \<open>
  Two zones. UTC has no clock changes. Europe/Prague, the default zone of the application's
  users, is one hour ahead of UTC and two hours ahead in summer time; by the rule in force
  since 1996 the clocks go forward at 02:00 on the last Sunday of March and back at 03:00 on
  the last Sunday of October, so that the midnight starting either Sunday still has the
  offset of the days before it.
\<close>

definition utcZone :: TimeZone where
  "utcZone ymd = 0"

definition lastSunday :: "nat \<Rightarrow> nat \<Rightarrow> nat" where
  "lastSunday y m = nat (31 - (dayNumber (y, m, 31) + 4) mod 7)"

definition europePrague :: TimeZone where
  "europePrague ymd =
     (case ymd of (y, m, d) \<Rightarrow>
        if (3 < m \<and> m < 10) \<or> (m = 3 \<and> lastSunday y 3 < d) \<or> (m = 10 \<and> d \<le> lastSunday y 10)
        then 2 * 60 * 60 * 1000
        else 60 * 60 * 1000)"

section \<open>Rules engine (packages/core/src/rules-engine.ts)\<close>

text \<open>
  Strings are UTF-8 byte sequences; the two non-ASCII signs of the warning texts are
  written out as their bytes.
\<close>

definition warningSign :: string where
  "warningSign = [CHR 0xE2, CHR 0x9A, CHR 0xA0, CHR 0xEF, CHR 0xB8, CHR 0x8F]"

definition arrowSign :: string where
  "arrowSign = [CHR 0xE2, CHR 0x86, CHR 0x92]"

text \<open>\<open>session.tags?.includes(t)\<close>, read as a condition: absent tags include nothing.\<close>

definition tagsInclude :: "string list option \<Rightarrow> string \<Rightarrow> bool" where
  "tagsInclude ts t = (case ts of None \<Rightarrow> False | Some l \<Rightarrow> t \<in> set l)"

definition dayNames :: "string list" where
  "dayNames = [''Sun'', ''Mon'', ''Tue'', ''Wed'', ''Thu'', ''Fri'', ''Sat'']"

definition dayNameOf :: "string \<Rightarrow> string option" where
  "dayNameOf d = map_option (\<lambda>i. dayNames ! i) (getDay (parseISO d))"

subsection \<open>Soft rule 4: SwimRotation\<close>

text \<open>
  The body of the \<open>forEach\<close>: the session stored at the index afterwards, and whether the
  pass set \<open>modified\<close>. Both branches rebuild from the original \<open>session\<close>.
\<close>

definition swimRotationSession :: "Session \<Rightarrow> Session \<times> bool" where
  "swimRotationSession session =
     (let dayName = dayNameOf (date session) in
      if sport session = swim then
        (let afterWed =
           (if dayName = Some ''Wed'' \<and> \<not> tagsInclude (tags session) ''technique''
            then (session\<lparr> title := ''Swim Technique'',
                           tags := Some [''technique''],
                           notes' := Some (appendNote (notes' session)
                                       ''Adjusted to technique session'') \<rparr>, True)
            else (session, False))
         in if dayName = Some ''Fri'' \<and> \<not> tagsInclude (tags session) ''intervals''
            then (session\<lparr> title := ''Swim Intervals'',
                           tags := Some [''intervals''],
                           intensity := z4,
                           notes' := Some (appendNote (notes' session)
                                       ''Adjusted to intervals session'') \<rparr>, True)
            else afterWed)
      else (session, False))"

definition applySwimRotationRule :: "WeekPlan \<Rightarrow> WeekPlan" where
  "applySwimRotationRule plan =
     (let results = map swimRotationSession (sessions plan);
          modified = list_ex snd results;
          appliedRules' =
            (if modified
             then appliedRules plan @
               [''SwimRotation: Adjusted swim sessions to match Wed=technique, Fri=intervals'']
             else appliedRules plan)
      in plan\<lparr> sessions := map fst results, appliedRules := appliedRules' \<rparr>)"

subsection \<open>Hard rule 2: ReadinessDownshift\<close>

definition readinessDownshiftSession :: "string \<Rightarrow> int \<Rightarrow> Session \<Rightarrow> Session \<times> bool" where
  "readinessDownshiftSession todayStr r session =
     (if date session = todayStr \<and> isHardSession session
      then (downgradeToEasy session (''Low readiness ('' @ showInt r @ ''/5)''), True)
      else (session, False))"

definition applyReadinessDownshiftRule :: "WeekPlan \<Rightarrow> RulesContext \<Rightarrow> WeekPlan" where
  "applyReadinessDownshiftRule plan context =
     (case todayFatigue context of
        None \<Rightarrow> plan
      | Some fatigue \<Rightarrow>
          if readiness fatigue > 2 then plan
          else
            (let todayStr = startDate plan;
                 results = map (readinessDownshiftSession todayStr (readiness fatigue))
                               (sessions plan);
                 modified = list_ex snd results;
                 warnings' =
                   (if modified
                    then warnings plan @
                      [warningSign @ '' Low readiness detected ('' @ showInt (readiness fatigue)
                         @ ''/5). Hard sessions downgraded to Z2.'']
                    else warnings plan);
                 appliedRules' =
                   (if modified
                    then appliedRules plan @
                      [''ReadinessDownshift: Downgraded hard sessions due to low readiness'']
                    else appliedRules plan)
             in plan\<lparr> sessions := map fst results, warnings := warnings',
                       appliedRules := appliedRules' \<rparr>))"

subsection \<open>Hard rule 1: NoHardHard\<close>

text \<open>
  The walk over the sorted sessions, carrying \<open>previousWasHard\<close> and \<open>previousDate\<close>
  (\<open>None\<close> is \<open>null\<close>; the empty string is falsy as well). Each entry of the result is
  the session stored at that index and whether it was downgraded.
\<close>

fun noHardHardLoop ::
  "TimeZone \<Rightarrow> bool \<Rightarrow> string option \<Rightarrow> Session list \<Rightarrow> (Session \<times> bool) list" where
  "noHardHardLoop tz previousWasHard previousDate [] = []"
| "noHardHardLoop tz previousWasHard previousDate (session # remaining) =
     (let currentHard = isHardSession session;
          isConsecutive =
            (case previousDate of None \<Rightarrow> False
             | Some pd \<Rightarrow> pd \<noteq> [] \<and> isNextDay tz pd (date session))
      in if isConsecutive \<and> previousWasHard \<and> currentHard
         then (downgradeToEasy session ''No back-to-back hard sessions allowed'', True)
                # noHardHardLoop tz False (Some (date session)) remaining
         else (session, False)
                # noHardHardLoop tz currentHard (Some (date session)) remaining)"

text \<open>
  \<open>sort((a, b) => a.date.localeCompare(b.date))\<close> is a stable sort on the date string; on
  \<open>YYYY-MM-DD\<close> strings the collation order is the lexicographic order of the characters.
\<close>

definition sortByDate :: "Session list \<Rightarrow> Session list" where
  "sortByDate ss = sort_key date ss"

definition applyNoHardHardRule :: "TimeZone \<Rightarrow> WeekPlan \<Rightarrow> WeekPlan" where
  "applyNoHardHardRule tz plan =
     (let results = noHardHardLoop tz False None (sortByDate (sessions plan));
          modified = list_ex snd results;
          warnings' =
            (if modified
             then warnings plan @
               [warningSign @ '' Adjusted plan to avoid back-to-back hard sessions'']
             else warnings plan);
          appliedRules' =
            (if modified
             then appliedRules plan @ [''NoHardHard: Prevented consecutive hard training days'']
             else appliedRules plan)
      in plan\<lparr> sessions := map fst results, warnings := warnings',
                appliedRules := appliedRules' \<rparr>)"

subsection \<open>Hard rule 3: WeeklyLoadCap\<close>

text \<open>
  \<open>Math.round\<close> rounds to the nearest integer, a half upwards. The factor \<open>1.1\<close> and the
  quotient \<open>scaleFactor\<close> are taken as exact rationals, where the source computes in
  double precision. The two agree except where the exact product lies on a half and the
  double product falls just beside it: for 105 minutes at the scale 121/210 the exact
  product is 60.5 and rounds to 61, the double product lies just below and rounds to 60.
\<close>

definition Math_round :: "rat \<Rightarrow> int" where
  "Math_round x = \<lfloor>x + 1 / 2\<rfloor>"

definition loadCapSession :: "rat \<Rightarrow> Session \<Rightarrow> Session" where
  "loadCapSession scaleFactor session =
     (if sport session \<noteq> rest \<and> durationMin session > 0 then
        (let newDuration = max 30 (Math_round (of_int (durationMin session) * scaleFactor))
         in if newDuration \<noteq> durationMin session
            then session\<lparr> durationMin := newDuration,
                           notes' := Some (appendNote (notes' session)
                                       ''Duration adjusted for progressive load management'') \<rparr>
            else session)
      else session)"

definition applyWeeklyLoadCapRule :: "WeekPlan \<Rightarrow> RulesContext \<Rightarrow> WeekPlan" where
  "applyWeeklyLoadCapRule plan context =
     (let lastWeekMinutes = totalMinutes (last7dStats context) in
      if lastWeekMinutes = 0 then plan
      else
        (let plannedMinutes = foldl (\<lambda>sum s. sum + durationMin s) 0 (sessions plan);
             maxAllowedMinutes = Math_round (of_int lastWeekMinutes * (11 / 10))
         in if plannedMinutes \<le> maxAllowedMinutes then plan
            else
              (let scaleFactor = of_int maxAllowedMinutes / of_int plannedMinutes;
                   sessions' = map (loadCapSession scaleFactor) (sessions plan);
                   warnings' = warnings plan @
                     [warningSign @ '' Weekly load capped at 110% of last week (''
                        @ showInt lastWeekMinutes @ ''min '' @ arrowSign @ '' ''
                        @ showInt maxAllowedMinutes @ ''min max)''];
                   appliedRules' = appliedRules plan @
                     [''WeeklyLoadCap: Scaled durations from '' @ showInt plannedMinutes
                        @ ''min to '' @ showInt maxAllowedMinutes @ ''min'']
               in plan\<lparr> sessions := sessions', warnings := warnings',
                         appliedRules := appliedRules' \<rparr>)))"

subsection \<open>Entry point\<close>

definition applyRules :: "TimeZone \<Rightarrow> WeekPlan \<Rightarrow> RulesContext \<Rightarrow> WeekPlan" where
  "applyRules tz weekPlan context =
     (let plan = weekPlan\<lparr> warnings := [], appliedRules := [] \<rparr>;
          plan = applySwimRotationRule plan;
          plan = applyReadinessDownshiftRule plan context;
          plan = applyNoHardHardRule tz plan;
          plan = applyWeeklyLoadCapRule plan context
      in plan)"

section \<open>The specification's reading of the engine\<close>

text \<open>
  The entry point as the specification words it: the annotations are reset, then the four
  rules are applied in the fixed order, each to the plan the previous one returned.
\<close>

definition resetAnnotations :: "WeekPlan \<Rightarrow> WeekPlan" where
  "resetAnnotations weekPlan = weekPlan\<lparr> warnings := [], appliedRules := [] \<rparr>"

definition ruleSequence :: "TimeZone \<Rightarrow> RulesContext \<Rightarrow> (WeekPlan \<Rightarrow> WeekPlan) list" where
  "ruleSequence tz context =
     [applySwimRotationRule,
      (\<lambda>plan. applyReadinessDownshiftRule plan context),
      applyNoHardHardRule tz,
      (\<lambda>plan. applyWeeklyLoadCapRule plan context)]"

definition applyRules_spec :: "TimeZone \<Rightarrow> WeekPlan \<Rightarrow> RulesContext \<Rightarrow> WeekPlan" where
  "applyRules_spec tz weekPlan context =
     foldl (\<lambda>plan rule. rule plan) (resetAnnotations weekPlan) (ruleSequence tz context)"

text \<open>The quantities the load-cap properties speak of.\<close>

definition plannedMinutes :: "WeekPlan \<Rightarrow> int" where
  "plannedMinutes plan = sum_list (map durationMin (sessions plan))"

definition appliedCap :: "RulesContext \<Rightarrow> int" where
  "appliedCap context = Math_round (of_int (totalMinutes (last7dStats context)) * (11 / 10))"




text \<open>
  The second date is the calendar day after the first: the day numbers differ by one,
  whatever the clocks do.
\<close>

definition calendarNextDay :: "string \<Rightarrow> string \<Rightarrow> bool" where
  "calendarNextDay date1 date2 =
     (case (epochDay date1, epochDay date2) of
        (Some d1, Some d2) \<Rightarrow> d2 = d1 + 1
      | _ \<Rightarrow> False)"

text \<open>
  No two sessions next to each other in the list are both hard with local midnights 24
  hours apart in the zone \<open>tz\<close>.
\<close>

fun noBackToBackHard :: "TimeZone \<Rightarrow> Session list \<Rightarrow> bool" where
  "noBackToBackHard tz (a # b # remaining) =
     ((isNextDay tz (date a) (date b) \<longrightarrow> \<not> (isHardSession a \<and> isHardSession b))
      \<and> noBackToBackHard tz (b # remaining))"
| "noBackToBackHard tz _ = True"

section \<open>Example plans and contexts (after packages/core/test/rules-engine.test.ts)\<close>

definition history300 :: RulesContext where
  "history300 = \<lparr> last7dStats = \<lparr> totalMinutes = 300, byDate = [] \<rparr>, todayFatigue = None \<rparr>"

definition noHistory :: RulesContext where
  "noHistory = \<lparr> last7dStats = \<lparr> totalMinutes = 0, byDate = [] \<rparr>, todayFatigue = None \<rparr>"

definition lowReadiness :: RulesContext where
  "lowReadiness =
     \<lparr> last7dStats = \<lparr> totalMinutes = 300, byDate = [] \<rparr>,
       todayFatigue = Some \<lparr> readiness = 2, sleepScore = None \<rparr> \<rparr>"

definition backToBackPlan :: WeekPlan where
  "backToBackPlan =
     \<lparr> startDate = ''2026-02-10'',
       sessions =
         [\<lparr> date = ''2026-02-10'', sport = bike, title = ''Bike VO2'', durationMin = 70,
            intensity = z5, notes' = None, tags = Some [''vo2''] \<rparr>,
          \<lparr> date = ''2026-02-11'', sport = run, title = ''Run Intervals'', durationMin = 55,
            intensity = z4, notes' = None, tags = None \<rparr>,
          \<lparr> date = ''2026-02-12'', sport = swim, title = ''Swim Technique'', durationMin = 50,
            intensity = z2, notes' = None, tags = None \<rparr>],
       warnings = [], appliedRules = [] \<rparr>"

definition todayTomorrowPlan :: WeekPlan where
  "todayTomorrowPlan =
     \<lparr> startDate = ''2026-02-10'',
       sessions =
         [\<lparr> date = ''2026-02-10'', sport = bike, title = ''Bike VO2 Max'', durationMin = 70,
            intensity = z5, notes' = None, tags = Some [''vo2''] \<rparr>,
          \<lparr> date = ''2026-02-11'', sport = run, title = ''Run Intervals'', durationMin = 55,
            intensity = z4, notes' = None, tags = None \<rparr>],
       warnings = [], appliedRules = [] \<rparr>"

definition history50 :: RulesContext where
  "history50 = \<lparr> last7dStats = \<lparr> totalMinutes = 50, byDate = [] \<rparr>, todayFatigue = None \<rparr>"

definition history40 :: RulesContext where
  "history40 = \<lparr> last7dStats = \<lparr> totalMinutes = 40, byDate = [] \<rparr>, todayFatigue = None \<rparr>"


text \<open>The same plan with a first session shorter than the minimum.\<close>

definition shortPlan :: WeekPlan where
  "shortPlan =
     \<lparr> startDate = ''2026-02-10'',
       sessions =
         [\<lparr> date = ''2026-02-10'', sport = bike, title = ''Bike'', durationMin = 20,
            intensity = z2, notes' = None, tags = None \<rparr>,
          \<lparr> date = ''2026-02-11'', sport = run, title = ''Run'', durationMin = 960,
            intensity = z2, notes' = None, tags = None \<rparr>],
       warnings = [], appliedRules = [] \<rparr>"

text \<open>Two sessions already at the minimum, 60 planned minutes against 40 last week.\<close>

definition flooredPlan :: WeekPlan where
  "flooredPlan =
     \<lparr> startDate = ''2026-02-10'',
       sessions =
         [\<lparr> date = ''2026-02-10'', sport = bike, title = ''Bike'', durationMin = 30,
            intensity = z2, notes' = None, tags = None \<rparr>,
          \<lparr> date = ''2026-02-11'', sport = run, title = ''Run'', durationMin = 30,
            intensity = z2, notes' = None, tags = None \<rparr>],
       warnings = [], appliedRules = [] \<rparr>"

text \<open>Three hard sessions on consecutive days, listed out of date order.\<close>

definition hardDay1 :: Session where
  "hardDay1 = \<lparr> date = ''2026-02-10'', sport = run, title = ''Run Hard'', durationMin = 60,
                intensity = z4, notes' = None, tags = None \<rparr>"

definition hardDay2 :: Session where
  "hardDay2 = \<lparr> date = ''2026-02-11'', sport = bike, title = ''Bike Hard'', durationMin = 60,
                intensity = z5, notes' = None, tags = None \<rparr>"

definition hardDay3 :: Session where
  "hardDay3 = \<lparr> date = ''2026-02-12'', sport = run, title = ''Run Hard'', durationMin = 55,
                intensity = z4, notes' = None, tags = None \<rparr>"

definition threeHardPlan :: WeekPlan where
  "threeHardPlan =
     \<lparr> startDate = ''2026-02-10'', sessions = [hardDay3, hardDay1, hardDay2],
       warnings = [], appliedRules = [] \<rparr>"

text \<open>
  Hard sessions on 29, 30 and 31 March 2026. In Europe/Prague the clocks go forward in the
  night of 29 March, so the midnights of 29 and 30 March are 23 hours apart.
\<close>

definition marchDay1 :: Session where
  "marchDay1 = \<lparr> date = ''2026-03-29'', sport = run, title = ''Run Hard'', durationMin = 60,
                 intensity = z4, notes' = None, tags = None \<rparr>"

definition marchDay2 :: Session where
  "marchDay2 = \<lparr> date = ''2026-03-30'', sport = bike, title = ''Bike Hard'', durationMin = 60,
                 intensity = z5, notes' = None, tags = None \<rparr>"

definition marchDay3 :: Session where
  "marchDay3 = \<lparr> date = ''2026-03-31'', sport = run, title = ''Run Hard'', durationMin = 55,
                 intensity = z4, notes' = None, tags = None \<rparr>"

definition clockChangePairPlan :: WeekPlan where
  "clockChangePairPlan =
     \<lparr> startDate = ''2026-03-28'', sessions = [marchDay1, marchDay2],
       warnings = [], appliedRules = [] \<rparr>"

definition clockChangeThreePlan :: WeekPlan where
  "clockChangeThreePlan =
     \<lparr> startDate = ''2026-03-28'', sessions = [marchDay1, marchDay2, marchDay3],
       warnings = [], appliedRules = [] \<rparr>"

text \<open>A Wednesday swim tagged as intervals and a Friday swim tagged as technique.\<close>

definition swimPlan :: WeekPlan where
  "swimPlan =
     \<lparr> startDate = ''2026-02-09'',
       sessions =
         [\<lparr> date = ''2026-02-11'', sport = swim, title = ''Swim Workout'', durationMin = 50,
            intensity = z4, notes' = None, tags = Some [''intervals''] \<rparr>,
          \<lparr> date = ''2026-02-13'', sport = swim, title = ''Swim Technique'', durationMin = 50,
            intensity = z2, notes' = None, tags = Some [''technique''] \<rparr>],
       warnings = [], appliedRules = [] \<rparr>"

section \<open>Auxiliary calendar notions\<close>

definition yearLength :: "nat \<Rightarrow> int" where
  "yearLength y = (if isLeapYear y then 366 else 365)"

definition validYMD :: "nat \<times> nat \<times> nat \<Rightarrow> bool" where
  "validYMD t =
     (case t of (y, m, d) \<Rightarrow> 1 \<le> m \<and> m \<le> 12 \<and> 1 \<le> d \<and> d \<le> daysInMonth y m)"

section \<open>Evaluation\<close>

lemmas calendar_defs = isNextDay_def getTime_def epochDay_def dayNumber_def parseYMD_def
  calendarNextDay_def utcZone_def europePrague_def lastSunday_def
  digitValue_def daysInMonth_def isLeapYear_def daysBeforeYear_def daysBeforeMonth_def
  parseISO_def getDay_def dayNameOf_def dayNames_def

lemmas rule_defs = applyRules_def applySwimRotationRule_def swimRotationSession_def
  applyReadinessDownshiftRule_def readinessDownshiftSession_def applyNoHardHardRule_def
  sortByDate_def applyWeeklyLoadCapRule_def loadCapSession_def isHardSession_def
  HARD_INTENSITIES_def HARD_TAGS_def downgradeToEasy_def tagsInclude_def

lemma floor_rat_numeral: "\<lfloor>numeral a / numeral b :: rat\<rfloor> = numeral a div numeral b"
  by (metis floor_divide_of_int_eq of_int_numeral)

section \<open>The session classifier\<close>

lemma downgradeToEasy_not_hard: "\<not> isHardSession (downgradeToEasy s r)"
  by (cases "tags s")
     (auto simp: isHardSession_def downgradeToEasy_def HARD_INTENSITIES_def list_ex_iff)

lemma downgradeToEasy_date: "date (downgradeToEasy s r) = date s"
  by (simp add: downgradeToEasy_def)

lemma downgradeToEasy_intensity: "intensity (downgradeToEasy s r) = z2"
  by (simp add: downgradeToEasy_def)

lemma downgradeToEasy_neq: "downgradeToEasy s r \<noteq> s"
proof
  assume "downgradeToEasy s r = s"
  then have "title (downgradeToEasy s r) = title s" by simp
  then show False by (simp add: downgradeToEasy_def)
qed

lemma loadCapSession_date: "date (loadCapSession k s) = date s"
  by (simp add: loadCapSession_def Let_def)

lemma loadCapSession_sport: "sport (loadCapSession k s) = sport s"
  by (simp add: loadCapSession_def Let_def)

lemma loadCapSession_hard: "isHardSession (loadCapSession k s) = isHardSession s"
  by (simp add: loadCapSession_def Let_def isHardSession_def)

section \<open>Frame: start date and number of sessions\<close>

lemma length_applySwimRotationRule:
  "length (sessions (applySwimRotationRule p)) = length (sessions p)"
  by (simp add: applySwimRotationRule_def Let_def)

lemma length_applyReadinessDownshiftRule:
  "length (sessions (applyReadinessDownshiftRule p c)) = length (sessions p)"
  by (simp add: applyReadinessDownshiftRule_def Let_def split: option.splits)

lemma length_noHardHardLoop: "length (noHardHardLoop tz pw pd ss) = length ss"
  by (induction ss arbitrary: pw pd) (simp_all add: Let_def)

lemma length_applyNoHardHardRule:
  "length (sessions (applyNoHardHardRule tz p)) = length (sessions p)"
  by (simp add: applyNoHardHardRule_def Let_def length_noHardHardLoop sortByDate_def)

lemma length_applyWeeklyLoadCapRule:
  "length (sessions (applyWeeklyLoadCapRule p c)) = length (sessions p)"
  by (simp add: applyWeeklyLoadCapRule_def Let_def)

lemma startDate_applySwimRotationRule: "startDate (applySwimRotationRule p) = startDate p"
  by (simp add: applySwimRotationRule_def Let_def)

lemma startDate_applyReadinessDownshiftRule:
  "startDate (applyReadinessDownshiftRule p c) = startDate p"
  by (simp add: applyReadinessDownshiftRule_def Let_def split: option.splits)

lemma startDate_applyNoHardHardRule: "startDate (applyNoHardHardRule tz p) = startDate p"
  by (simp add: applyNoHardHardRule_def Let_def)

lemma startDate_applyWeeklyLoadCapRule: "startDate (applyWeeklyLoadCapRule p c) = startDate p"
  by (simp add: applyWeeklyLoadCapRule_def Let_def)

text \<open>
  C10. The plan returned by \<open>applyRules\<close> has the start date of the input plan, and its
  session list has the length of the input's: no rule adds or removes a session.
\<close>

theorem applyRules_keeps_startDate_and_length:
  "startDate (applyRules tz plan context) = startDate plan \<and>
   length (sessions (applyRules tz plan context)) = length (sessions plan)"
  by (simp add: applyRules_def Let_def
      length_applySwimRotationRule length_applyReadinessDownshiftRule
      length_applyNoHardHardRule length_applyWeeklyLoadCapRule
      startDate_applySwimRotationRule startDate_applyReadinessDownshiftRule
      startDate_applyNoHardHardRule startDate_applyWeeklyLoadCapRule)

section \<open>Order of the rules\<close>

text \<open>
  C3. \<open>applyRules\<close> is the sequential composition of the specification: reset the
  warnings and applied rules of the input plan, then SwimRotation, ReadinessDownshift,
  NoHardHard and WeeklyLoadCap, each on the plan returned by the rule before it.
\<close>

theorem applyRules_is_rule_sequence:
  "applyRules tz plan context = applyRules_spec tz plan context"
  by (simp add: applyRules_def applyRules_spec_def ruleSequence_def resetAnnotations_def Let_def)

section \<open>ReadinessDownshift\<close>

text \<open>
  C7. ReadinessDownshift only modifies sessions dated on the plan's start date: whatever
  the context and the readiness value, a session at any position whose date differs from
  \<open>startDate\<close> is returned unchanged at that position, hard or not.
\<close>

theorem readinessDownshift_locality:
  "length (sessions (applyReadinessDownshiftRule plan context)) = length (sessions plan) \<and>
   (\<forall>i < length (sessions plan).
      date (sessions plan ! i) \<noteq> startDate plan \<longrightarrow>
      sessions (applyReadinessDownshiftRule plan context) ! i = sessions plan ! i)"
  by (auto simp: applyReadinessDownshiftRule_def Let_def readinessDownshiftSession_def
           split: option.splits)

lemma todayTomorrowPlan_downshift:
  "map intensity (sessions (applyReadinessDownshiftRule todayTomorrowPlan lowReadiness))
     = [z2, z4]"
  by (simp add: todayTomorrowPlan_def lowReadiness_def applyReadinessDownshiftRule_def
        readinessDownshiftSession_def isHardSession_def HARD_INTENSITIES_def
        downgradeToEasy_def Let_def)

theorem readinessDownshift_locality_witness:
  "isHardSession (sessions todayTomorrowPlan ! 1) \<and>
   date (sessions todayTomorrowPlan ! 1) \<noteq> startDate todayTomorrowPlan \<and>
   sessions (applyReadinessDownshiftRule todayTomorrowPlan lowReadiness) ! 1
     = sessions todayTomorrowPlan ! 1 \<and>
   intensity (sessions (applyReadinessDownshiftRule todayTomorrowPlan lowReadiness) ! 0) = z2"
proof -
  have len: "(1::nat) < length (sessions todayTomorrowPlan)"
    by (simp add: todayTomorrowPlan_def)
  have other: "date (sessions todayTomorrowPlan ! 1) \<noteq> startDate todayTomorrowPlan"
    by (simp add: todayTomorrowPlan_def)
  have hard: "isHardSession (sessions todayTomorrowPlan ! 1)"
    by (simp add: todayTomorrowPlan_def isHardSession_def HARD_INTENSITIES_def)
  have today: "intensity (sessions (applyReadinessDownshiftRule todayTomorrowPlan lowReadiness) ! 0) = z2"
    using arg_cong[OF todayTomorrowPlan_downshift, of "\<lambda>l. l ! 0"]
    by (simp add: length_applyReadinessDownshiftRule todayTomorrowPlan_def)
  from readinessDownshift_locality[of todayTomorrowPlan lowReadiness] len other
  have "sessions (applyReadinessDownshiftRule todayTomorrowPlan lowReadiness) ! 1
          = sessions todayTomorrowPlan ! 1"
    by blast
  with hard other today show ?thesis by blast
qed

text \<open>
  C8. Absent optional context is a no-op, not an error: when \<open>todayFatigue\<close> is absent or
  its readiness exceeds 2, ReadinessDownshift returns the plan unchanged; when the total
  minutes of the last seven days are 0, WeeklyLoadCap returns the plan unchanged (no
  scaling, no warning, no applied-rules entry).
\<close>

theorem absent_context_is_noop:
  "((case todayFatigue context of None \<Rightarrow> True | Some fatigue \<Rightarrow> readiness fatigue > 2)
      \<longrightarrow> applyReadinessDownshiftRule plan context = plan) \<and>
   (totalMinutes (last7dStats context) = 0
      \<longrightarrow> applyWeeklyLoadCapRule plan context = plan)"
  by (auto simp: applyReadinessDownshiftRule_def applyWeeklyLoadCapRule_def
           split: option.splits)

theorem absent_context_is_noop_witness:
  "todayFatigue noHistory = None \<and> totalMinutes (last7dStats noHistory) = 0 \<and>
   applyReadinessDownshiftRule backToBackPlan noHistory = backToBackPlan \<and>
   applyWeeklyLoadCapRule backToBackPlan noHistory = backToBackPlan"
proof -
  have a: "todayFatigue noHistory = None" and b: "totalMinutes (last7dStats noHistory) = 0"
    by (simp_all add: noHistory_def)
  from absent_context_is_noop[of noHistory backToBackPlan] a b show ?thesis by simp
qed

section \<open>Order of dates\<close>

text \<open>
  The sort compares the date strings. For the strings the model accepts, the order of the
  strings is the order of the days: a date one calendar day after another is the greater
  string. The day number grows with the year, then the month, then the day, and so does
  the string.
\<close>

lemma div_step:
  assumes "0 < (k::nat)"
  shows "(Suc n + (k - 1)) div k = (n + (k - 1)) div k + (if n mod k = 0 then 1 else 0)"
proof -
  have left: "(Suc n + (k - 1)) div k = n div k + 1"
    using assms by simp
  have split: "(n + (k - 1)) div k = n div k + (n mod k + (k - 1)) div k"
  proof -
    have "(k - 1) div k = 0" and "(k - 1) mod k = k - 1"
      using assms by simp_all
    with div_add1_eq[of n "k - 1" k] show ?thesis by (simp only: add_0_right)
  qed
  have "(n mod k + (k - 1)) div k = (if n mod k = 0 then 0 else 1)"
  proof (cases "n mod k = 0")
    case True
    then show ?thesis using assms by simp
  next
    case False
    have "n mod k < k" using assms by simp
    with False have "k * 1 \<le> n mod k + (k - 1)" and "n mod k + (k - 1) < k * Suc 1"
      by simp_all
    then have "(n mod k + (k - 1)) div k = 1" by (rule div_nat_eqI)
    with False show ?thesis by simp
  qed
  with left split show ?thesis by simp
qed

lemma mod_400_100: "(y::nat) mod 400 = 0 \<Longrightarrow> y mod 100 = 0"
proof -
  assume "y mod 400 = 0"
  then have "400 dvd y" by (simp add: dvd_eq_mod_eq_0)
  moreover have "(100::nat) dvd 400" by simp
  ultimately have "100 dvd y" using dvd_trans by blast
  then show ?thesis by (simp add: dvd_eq_mod_eq_0)
qed

lemma mod_100_4: "(y::nat) mod 100 = 0 \<Longrightarrow> y mod 4 = 0"
proof -
  assume "y mod 100 = 0"
  then have "100 dvd y" by (simp add: dvd_eq_mod_eq_0)
  moreover have "(4::nat) dvd 100" by simp
  ultimately have "4 dvd y" using dvd_trans by blast
  then show ?thesis by (simp add: dvd_eq_mod_eq_0)
qed

lemma daysBeforeYear_Suc: "daysBeforeYear (Suc y) = daysBeforeYear y + yearLength y"
proof -
  have a: "(Suc y + 3) div 4 = (y + 3) div 4 + (if y mod 4 = 0 then 1 else 0)"
    using div_step[of 4 y] by simp
  have b: "(Suc y + 99) div 100 = (y + 99) div 100 + (if y mod 100 = 0 then 1 else 0)"
    using div_step[of 100 y] by simp
  have c: "(Suc y + 399) div 400 = (y + 399) div 400 + (if y mod 400 = 0 then 1 else 0)"
    using div_step[of 400 y] by simp
  have unfolded: "daysBeforeYear (Suc y) =
      365 * int (Suc y) + int ((Suc y + 3) div 4) - int ((Suc y + 99) div 100)
        + int ((Suc y + 399) div 400)"
    by (simp only: daysBeforeYear_def)
  show ?thesis
    unfolding unfolded a b c
    using mod_400_100[of y] mod_100_4[of y]
    by (auto simp: daysBeforeYear_def yearLength_def isLeapYear_def)
qed

lemma yearLength_pos: "0 < yearLength y"
  by (simp add: yearLength_def)

lemma daysBeforeYear_mono: "y1 < y2 \<Longrightarrow> daysBeforeYear y1 + yearLength y1 \<le> daysBeforeYear y2"
proof (induction y2)
  case 0
  then show ?case by simp
next
  case (Suc y2)
  show ?case
  proof (cases "y1 = y2")
    case True
    then show ?thesis by (simp add: daysBeforeYear_Suc)
  next
    case False
    with Suc.prems have "y1 < y2" by simp
    from Suc.IH[OF this] yearLength_pos[of y2] show ?thesis
      by (simp add: daysBeforeYear_Suc)
  qed
qed

lemma month_cases:
  "1 \<le> m \<Longrightarrow> m \<le> 12 \<Longrightarrow>
   m = 1 \<or> m = 2 \<or> m = 3 \<or> m = 4 \<or> m = 5 \<or> m = 6 \<or> m = 7 \<or> m = 8 \<or> m = 9 \<or> m = 10
     \<or> m = 11 \<or> m = (12::nat)"
  by arith

lemma daysBeforeMonth_Suc:
  assumes "1 \<le> m" and "m \<le> 11"
  shows "daysBeforeMonth y (Suc m) = daysBeforeMonth y m + int (daysInMonth y m)"
proof -
  from assms have "m = 1 \<or> m = 2 \<or> m = 3 \<or> m = 4 \<or> m = 5 \<or> m = 6 \<or> m = 7 \<or> m = 8
      \<or> m = 9 \<or> m = 10 \<or> m = 11"
    by arith
  then show ?thesis
    by (elim disjE) (simp_all add: daysBeforeMonth_def daysInMonth_def)
qed

lemma daysBeforeMonth_mono:
  assumes "1 \<le> m1" and "m1 < m2" and "m2 \<le> 12"
  shows "daysBeforeMonth y m1 + int (daysInMonth y m1) \<le> daysBeforeMonth y m2"
  using assms
proof (induction m2)
  case 0
  then show ?case by simp
next
  case (Suc m2)
  have step: "daysBeforeMonth y (Suc m2) = daysBeforeMonth y m2 + int (daysInMonth y m2)"
    using Suc.prems by (intro daysBeforeMonth_Suc) simp_all
  show ?case
  proof (cases "m1 = m2")
    case True
    then show ?thesis by (simp add: step)
  next
    case False
    with Suc.prems have "daysBeforeMonth y m1 + int (daysInMonth y m1) \<le> daysBeforeMonth y m2"
      by (intro Suc.IH) simp_all
    then show ?thesis by (simp add: step)
  qed
qed

lemma daysBeforeMonth_year:
  assumes "1 \<le> m" and "m \<le> 12"
  shows "daysBeforeMonth y m + int (daysInMonth y m) \<le> yearLength y"
  using month_cases[OF assms]
  by (elim disjE) (simp_all add: daysBeforeMonth_def daysInMonth_def yearLength_def)

lemma daysBeforeMonth_nonneg:
  assumes "1 \<le> m" and "m \<le> 12"
  shows "0 \<le> daysBeforeMonth y m"
  using month_cases[OF assms]
  by (elim disjE) (simp_all add: daysBeforeMonth_def)

lemma dayNumber_strict_mono:
  assumes "validYMD (y1, m1, d1)" and "validYMD (y2, m2, d2)"
      and "y1 < y2 \<or> (y1 = y2 \<and> (m1 < m2 \<or> (m1 = m2 \<and> d1 < d2)))"
  shows "dayNumber (y1, m1, d1) < dayNumber (y2, m2, d2)"
proof -
  from assms(1) have v1: "1 \<le> m1" "m1 \<le> 12" "1 \<le> d1" "d1 \<le> daysInMonth y1 m1"
    by (simp_all add: validYMD_def)
  from assms(2) have v2: "1 \<le> m2" "m2 \<le> 12" "1 \<le> d2" "d2 \<le> daysInMonth y2 m2"
    by (simp_all add: validYMD_def)
  consider (year) "y1 < y2" | (month) "y1 = y2" "m1 < m2" | (day) "y1 = y2" "m1 = m2" "d1 < d2"
    using assms(3) by blast
  then show ?thesis
  proof cases
    case year
    have "daysBeforeMonth y1 m1 + int d1 \<le> yearLength y1"
      using daysBeforeMonth_year[OF v1(1,2), of y1] v1(4) by simp
    moreover have "daysBeforeYear y1 + yearLength y1 \<le> daysBeforeYear y2"
      by (rule daysBeforeYear_mono[OF year])
    moreover have "0 \<le> daysBeforeMonth y2 m2"
      by (rule daysBeforeMonth_nonneg[OF v2(1,2)])
    ultimately show ?thesis using v2(3) by (simp add: dayNumber_def)
  next
    case month
    have "daysBeforeMonth y1 m1 + int (daysInMonth y1 m1) \<le> daysBeforeMonth y1 m2"
      by (rule daysBeforeMonth_mono[OF v1(1) month(2) v2(2)])
    then show ?thesis using month(1) v1(4) v2(3) by (simp add: dayNumber_def)
  next
    case day
    then show ?thesis by (simp add: dayNumber_def)
  qed
qed

lemma digitValue_bound: "digitValue c = Some v \<Longrightarrow> v \<le> 9 \<and> of_char c = 48 + v"
  by (auto simp: digitValue_def Let_def split: if_splits)

lemma digit_less:
  "digitValue c = Some v \<Longrightarrow> digitValue e = Some w \<Longrightarrow> c < e \<longleftrightarrow> v < w"
  by (auto simp: less_char_def dest!: digitValue_bound)

lemma digit_eq:
  "digitValue c = Some v \<Longrightarrow> digitValue e = Some w \<Longrightarrow> c = e \<longleftrightarrow> v = w"
  by (auto dest!: digitValue_bound) (metis of_char_eq_iff)

lemma parseYMD_shape:
  assumes "parseYMD s = Some (y, m, d)"
  shows "\<exists>c0 c1 c2 c3 c5 c6 c8 c9 v0 v1 v2 v3 v5 v6 v8 v9.
           s = [c0, c1, c2, c3, CHR ''-'', c5, c6, CHR ''-'', c8, c9] \<and>
           digitValue c0 = Some v0 \<and> digitValue c1 = Some v1 \<and> digitValue c2 = Some v2 \<and>
           digitValue c3 = Some v3 \<and> digitValue c5 = Some v5 \<and> digitValue c6 = Some v6 \<and>
           digitValue c8 = Some v8 \<and> digitValue c9 = Some v9 \<and>
           y = 1000 * v0 + 100 * v1 + 10 * v2 + v3 \<and> m = 10 * v5 + v6 \<and> d = 10 * v8 + v9 \<and>
           validYMD (y, m, d)"
proof -
  from assms have len: "length s = 10"
    by (simp add: parseYMD_def split: if_splits)
  then obtain c0 c1 c2 c3 c4 c5 c6 c7 c8 c9 where s: "s = [c0, c1, c2, c3, c4, c5, c6, c7, c8, c9]"
    by (auto simp: length_Suc_conv eval_nat_numeral)
  from assms show ?thesis
    unfolding s
    by (auto simp: parseYMD_def validYMD_def split: if_splits option.splits)
qed

lemma date_less_lex:
  assumes "parseYMD s = Some (y1, m1, d1)" and "parseYMD t = Some (y2, m2, d2)" and "s < t"
  shows "y1 < y2 \<or> (y1 = y2 \<and> (m1 < m2 \<or> (m1 = m2 \<and> d1 < d2)))"
proof -
  from parseYMD_shape[OF assms(1)] obtain c0 c1 c2 c3 c5 c6 c8 c9 v0 v1 v2 v3 v5 v6 v8 v9
    where s: "s = [c0, c1, c2, c3, CHR ''-'', c5, c6, CHR ''-'', c8, c9]"
      and c: "digitValue c0 = Some v0" "digitValue c1 = Some v1" "digitValue c2 = Some v2"
        "digitValue c3 = Some v3" "digitValue c5 = Some v5" "digitValue c6 = Some v6"
        "digitValue c8 = Some v8" "digitValue c9 = Some v9"
      and n1: "y1 = 1000 * v0 + 100 * v1 + 10 * v2 + v3" "m1 = 10 * v5 + v6" "d1 = 10 * v8 + v9"
    by blast
  from parseYMD_shape[OF assms(2)] obtain e0 e1 e2 e3 e5 e6 e8 e9 w0 w1 w2 w3 w5 w6 w8 w9
    where t: "t = [e0, e1, e2, e3, CHR ''-'', e5, e6, CHR ''-'', e8, e9]"
      and e: "digitValue e0 = Some w0" "digitValue e1 = Some w1" "digitValue e2 = Some w2"
        "digitValue e3 = Some w3" "digitValue e5 = Some w5" "digitValue e6 = Some w6"
        "digitValue e8 = Some w8" "digitValue e9 = Some w9"
      and n2: "y2 = 1000 * w0 + 100 * w1 + 10 * w2 + w3" "m2 = 10 * w5 + w6" "d2 = 10 * w8 + w9"
    by blast
  have bv: "v0 \<le> 9" "v1 \<le> 9" "v2 \<le> 9" "v3 \<le> 9" "v5 \<le> 9" "v6 \<le> 9" "v8 \<le> 9" "v9 \<le> 9"
    using c by (simp_all add: digitValue_bound)
  have bw: "w0 \<le> 9" "w1 \<le> 9" "w2 \<le> 9" "w3 \<le> 9" "w5 \<le> 9" "w6 \<le> 9" "w8 \<le> 9" "w9 \<le> 9"
    using e by (simp_all add: digitValue_bound)
  note less = digit_less[OF c(1) e(1)] digit_less[OF c(2) e(2)] digit_less[OF c(3) e(3)]
    digit_less[OF c(4) e(4)] digit_less[OF c(5) e(5)] digit_less[OF c(6) e(6)]
    digit_less[OF c(7) e(7)] digit_less[OF c(8) e(8)]
  note eq = digit_eq[OF c(1) e(1)] digit_eq[OF c(2) e(2)] digit_eq[OF c(3) e(3)]
    digit_eq[OF c(4) e(4)] digit_eq[OF c(5) e(5)] digit_eq[OF c(6) e(6)]
    digit_eq[OF c(7) e(7)] digit_eq[OF c(8) e(8)]
  from assms(3) have lex:
    "v0 < w0 \<or> v0 = w0 \<and> (v1 < w1 \<or> v1 = w1 \<and> (v2 < w2 \<or> v2 = w2 \<and> (v3 < w3 \<or> v3 = w3 \<and>
       (v5 < w5 \<or> v5 = w5 \<and> (v6 < w6 \<or> v6 = w6 \<and> (v8 < w8 \<or> v8 = w8 \<and> v9 < w9))))))"
    unfolding s t by (simp add: less eq)
  have year: "y1 < y2" if "v0 < w0 \<or> v0 = w0 \<and> (v1 < w1 \<or> v1 = w1 \<and> (v2 < w2 \<or> v2 = w2 \<and> v3 < w3))"
    using that bv bw unfolding n1 n2 by arith
  have month: "m1 < m2" if "v5 < w5 \<or> v5 = w5 \<and> v6 < w6"
    using that bv bw unfolding n1 n2 by arith
  have day: "d1 < d2" if "v8 < w8 \<or> v8 = w8 \<and> v9 < w9"
    using that bv bw unfolding n1 n2 by arith
  have yeq: "y1 = y2" if "v0 = w0" "v1 = w1" "v2 = w2" "v3 = w3"
    using that unfolding n1 n2 by simp
  have meq: "m1 = m2" if "v5 = w5" "v6 = w6"
    using that unfolding n1 n2 by simp
  from lex year month day yeq meq show ?thesis by blast
qed

lemma parseYMD_valid: "parseYMD s = Some t \<Longrightarrow> validYMD t"
  by (cases t) (auto dest: parseYMD_shape)

lemma calendarNextDay_dayNumber:
  assumes "calendarNextDay a b"
  shows "\<exists>ta tb. parseYMD a = Some ta \<and> parseYMD b = Some tb \<and> dayNumber tb = dayNumber ta + 1"
  using assms by (auto simp: calendarNextDay_def epochDay_def split: option.splits)

lemma calendarNextDay_less:
  assumes "calendarNextDay a b"
  shows "a < b"
proof (rule ccontr)
  assume "\<not> a < b"
  then consider "a = b" | "b < a" by fastforce
  then show False
  proof cases
    case 1
    with calendarNextDay_dayNumber[OF assms] show False by auto
  next
    case 2
    from calendarNextDay_dayNumber[OF assms] obtain ta tb where p: "parseYMD a = Some ta"
      "parseYMD b = Some tb" and n: "dayNumber tb = dayNumber ta + 1"
      by blast
    obtain y1 m1 d1 where ta: "ta = (y1, m1, d1)" by (cases ta)
    obtain y2 m2 d2 where tb: "tb = (y2, m2, d2)" by (cases tb)
    from date_less_lex[OF p(2)[unfolded tb] p(1)[unfolded ta] 2]
    have "y2 < y1 \<or> (y2 = y1 \<and> (m2 < m1 \<or> (m2 = m1 \<and> d2 < d1)))" .
    from dayNumber_strict_mono[OF _ _ this] parseYMD_valid[OF p(1)] parseYMD_valid[OF p(2)]
    have "dayNumber tb < dayNumber ta" by (simp add: ta tb)
    with n show False by simp
  qed
qed

section \<open>Local midnights and calendar days\<close>

lemma getTime_midnight:
  "getTime tz (s @ ''T00:00:00'')
     = map_option (\<lambda>ymd. dayNumber ymd * 86400000 - tz ymd) (parseYMD s)"
proof (cases "length s = 10")
  case True
  then show ?thesis by (simp add: getTime_def)
next
  case False
  from False have "length (drop 10 (s @ ''T00:00:00'')) \<noteq> length ''T00:00:00''"
    by simp
  then have "drop 10 (s @ ''T00:00:00'') \<noteq> ''T00:00:00''" by metis
  moreover from False have "parseYMD s = None" by (simp add: parseYMD_def)
  ultimately show ?thesis by (simp add: getTime_def)
qed

text \<open>
  In a zone whose offset never changes the test of the source is the calendar test. In a
  zone with clock changes it is not: the day after the clocks go forward starts 23 hours
  after the day before it.
\<close>

lemma isNextDay_fixed_offset:
  assumes "\<And>s t. tz s = tz t"
  shows "isNextDay tz a b = calendarNextDay a b"
proof (cases "parseYMD a")
  case None
  then show ?thesis
    by (simp add: isNextDay_def getTime_midnight calendarNextDay_def epochDay_def)
next
  case a: (Some ta)
  show ?thesis
  proof (cases "parseYMD b")
    case None
    then show ?thesis
      by (simp add: isNextDay_def getTime_midnight calendarNextDay_def epochDay_def a)
  next
    case b: (Some tb)
    have "tz tb = tz ta" by (rule assms)
    then show ?thesis
      by (auto simp: isNextDay_def getTime_midnight calendarNextDay_def epochDay_def a b Let_def)
  qed
qed

lemma isNextDay_utcZone: "isNextDay utcZone a b = calendarNextDay a b"
  by (rule isNextDay_fixed_offset) (simp add: utcZone_def)

text \<open>The three days around the clock change of March 2026, step by step.\<close>

lemma march_2026_parsed:
  "parseYMD ''2026-03-29'' = Some (2026, 3, 29)"
  "parseYMD ''2026-03-30'' = Some (2026, 3, 30)"
  "parseYMD ''2026-03-31'' = Some (2026, 3, 31)"
  by (simp_all add: parseYMD_def digitValue_def daysInMonth_def)

lemma march_2026_dayNumber:
  "dayNumber (2026, 3, 29) = 20541"
  "dayNumber (2026, 3, 30) = 20542"
  "dayNumber (2026, 3, 31) = 20543"
  by (simp_all add: dayNumber_def daysBeforeYear_def daysBeforeMonth_def isLeapYear_def)

lemma march_2026_lastSunday: "lastSunday 2026 3 = 29"
  by (simp add: lastSunday_def march_2026_dayNumber)

lemma march_2026_offsets:
  "europePrague (2026, 3, 29) = 3600000"
  "europePrague (2026, 3, 30) = 7200000"
  "europePrague (2026, 3, 31) = 7200000"
  by (simp_all add: europePrague_def march_2026_lastSunday)

lemma march_2026_midnights:
  "getTime europePrague ''2026-03-29T00:00:00'' = Some (20541 * 86400000 - 3600000)"
  "getTime europePrague ''2026-03-30T00:00:00'' = Some (20542 * 86400000 - 7200000)"
  "getTime europePrague ''2026-03-31T00:00:00'' = Some (20543 * 86400000 - 7200000)"
  by (simp_all add: getTime_def march_2026_parsed march_2026_dayNumber march_2026_offsets)

lemma clock_change_calendar:
  "calendarNextDay ''2026-03-29'' ''2026-03-30''"
  "calendarNextDay ''2026-03-30'' ''2026-03-31''"
  by (simp_all add: calendarNextDay_def epochDay_def march_2026_parsed march_2026_dayNumber)

lemma clock_change_not_next_day:
  "\<not> isNextDay europePrague ''2026-03-29'' ''2026-03-30''"
  "isNextDay europePrague ''2026-03-30'' ''2026-03-31''"
  by (simp_all add: isNextDay_def march_2026_midnights)

lemma isNextDay_empty: "\<not> isNextDay tz [] d"
  by (simp add: isNextDay_def getTime_def)

section \<open>NoHardHard\<close>

lemma noBackToBackHard_nth:
  "noBackToBackHard tz ss \<Longrightarrow> Suc i < length ss \<Longrightarrow>
   isNextDay tz (date (ss ! i)) (date (ss ! Suc i)) \<Longrightarrow>
   \<not> (isHardSession (ss ! i) \<and> isHardSession (ss ! Suc i))"
proof (induction tz ss arbitrary: i rule: noBackToBackHard.induct)
  case (1 tz a b remaining)
  show ?case
  proof (cases i)
    case 0
    with "1.prems" show ?thesis by simp
  next
    case (Suc j)
    with "1.prems" "1.IH"[of j] show ?thesis by simp
  qed
qed simp_all

lemma noBackToBackHard_map:
  assumes "\<And>s. date (f s) = date s" and "\<And>s. isHardSession (f s) = isHardSession s"
  shows "noBackToBackHard tz (map f ss) = noBackToBackHard tz ss"
  by (induction tz ss rule: noBackToBackHard.induct) (simp_all add: assms)

text \<open>The first session the walk stores, against the state it was entered with.\<close>

lemma noHardHardLoop_head:
  assumes "isNextDay tz p (date s)" and "pw"
  shows "\<not> isHardSession (fst (hd (noHardHardLoop tz pw (Some p) (s # ss))))"
  using assms by (cases "p = []") (auto simp: Let_def downgradeToEasy_not_hard isNextDay_empty)

text \<open>
  One step of the walk: the state handed on is the hardness of the session just stored
  and the date of the session just read.
\<close>

lemma noHardHardLoop_Cons:
  "\<exists>h m. noHardHardLoop tz pw pd (s # ss)
            = (h, m) # noHardHardLoop tz (isHardSession h) (Some (date s)) ss
         \<and> date h = date s"
  by (auto simp: Let_def downgradeToEasy_not_hard downgradeToEasy_date)

lemma noHardHardLoop_invariant:
  "noBackToBackHard tz (map fst (noHardHardLoop tz pw pd ss))"
proof (induction ss arbitrary: pw pd)
  case Nil
  show ?case by simp
next
  case (Cons s ss)
  obtain h m where step:
    "noHardHardLoop tz pw pd (s # ss)
       = (h, m) # noHardHardLoop tz (isHardSession h) (Some (date s)) ss"
    and dh: "date h = date s"
    using noHardHardLoop_Cons by blast
  show ?case
  proof (cases ss)
    case Nil
    then show ?thesis using step by simp
  next
    case (Cons t ts)
    obtain h2 m2 where step2:
      "noHardHardLoop tz (isHardSession h) (Some (date s)) (t # ts)
         = (h2, m2) # noHardHardLoop tz (isHardSession h2) (Some (date t)) ts"
      and dh2: "date h2 = date t"
      using noHardHardLoop_Cons by blast
    have rest_ok:
      "noBackToBackHard tz (map fst (noHardHardLoop tz (isHardSession h) (Some (date s)) ss))"
      by (rule Cons.IH)
    have pair: "isNextDay tz (date h) (date h2) \<longrightarrow> \<not> (isHardSession h \<and> isHardSession h2)"
    proof (intro impI notI)
      assume nd: "isNextDay tz (date h) (date h2)"
        and hard: "isHardSession h \<and> isHardSession h2"
      from nd dh dh2 have nd': "isNextDay tz (date s) (date t)" by simp
      from hard have "isHardSession h" by simp
      from noHardHardLoop_head[OF nd' this, of ts] hard step2
      show False by simp
    qed
    from step step2 rest_ok pair Cons show ?thesis by simp
  qed
qed

lemma map_date_noHardHardLoop:
  "map (date \<circ> fst) (noHardHardLoop tz pw pd ss) = map date ss"
  by (induction ss arbitrary: pw pd) (simp_all add: Let_def downgradeToEasy_date)

lemma applyNoHardHardRule_invariant:
  "noBackToBackHard tz (sessions (applyNoHardHardRule tz p))"
  by (simp add: applyNoHardHardRule_def Let_def noHardHardLoop_invariant)

lemma applyNoHardHardRule_sorted: "sorted (map date (sessions (applyNoHardHardRule tz p)))"
  by (simp add: applyNoHardHardRule_def Let_def map_date_noHardHardLoop sortByDate_def)

text \<open>WeeklyLoadCap rewrites sessions in place, leaving date, sport and hardness alone.\<close>

lemma applyWeeklyLoadCapRule_sessions:
  "\<exists>f. sessions (applyWeeklyLoadCapRule p c) = map f (sessions p)
       \<and> (\<forall>s. date (f s) = date s \<and> isHardSession (f s) = isHardSession s
              \<and> sport (f s) = sport s)"
proof (cases "sessions (applyWeeklyLoadCapRule p c) = sessions p")
  case True
  then show ?thesis by (intro exI[of _ id]) simp
next
  case False
  then obtain k where
    "sessions (applyWeeklyLoadCapRule p c) = map (loadCapSession k) (sessions p)"
    by (auto simp: applyWeeklyLoadCapRule_def Let_def split: if_splits)
  then show ?thesis
    by (intro exI[of _ "loadCapSession k"])
       (simp add: loadCapSession_date loadCapSession_hard loadCapSession_sport)
qed

text \<open>
  What the engine guarantees in every zone: the sessions of the result are in ascending
  date order, and two sessions next to each other whose local midnights are 24 hours apart
  are not both hard.
\<close>

lemma applyRules_no_hard_pair_24h_apart:
  "sorted (map date (sessions (applyRules tz plan context))) \<and>
   (\<forall>i. Suc i < length (sessions (applyRules tz plan context)) \<longrightarrow>
      isNextDay tz (date (sessions (applyRules tz plan context) ! i))
                   (date (sessions (applyRules tz plan context) ! Suc i)) \<longrightarrow>
      \<not> (isHardSession (sessions (applyRules tz plan context) ! i) \<and>
         isHardSession (sessions (applyRules tz plan context) ! Suc i)))"
proof -
  define q where "q = applyNoHardHardRule tz (applyReadinessDownshiftRule
       (applySwimRotationRule (plan\<lparr>warnings := [], appliedRules := []\<rparr>)) context)"
  have res: "applyRules tz plan context = applyWeeklyLoadCapRule q context"
    by (simp add: applyRules_def q_def Let_def)
  obtain f where f: "sessions (applyWeeklyLoadCapRule q context) = map f (sessions q)"
    and fd: "\<And>s. date (f s) = date s" and fh: "\<And>s. isHardSession (f s) = isHardSession s"
    using applyWeeklyLoadCapRule_sessions by blast
  have "map date (map f (sessions q)) = map date (sessions q)"
    by (simp add: fd)
  moreover have "sorted (map date (sessions q))"
    unfolding q_def by (rule applyNoHardHardRule_sorted)
  ultimately have srt: "sorted (map date (sessions (applyRules tz plan context)))"
    by (simp only: res f)
  have "noBackToBackHard tz (sessions q)"
    unfolding q_def by (rule applyNoHardHardRule_invariant)
  then have inv: "noBackToBackHard tz (sessions (applyRules tz plan context))"
    by (simp add: res f noBackToBackHard_map[of f, OF fd fh])
  show ?thesis
    using srt noBackToBackHard_nth[OF inv] by blast
qed

text \<open>
  In a zone without clock changes this is the property of consecutive calendar days: two
  sessions next to each other in date order, one calendar day apart, are not both hard.
\<close>

lemma applyRules_no_back_to_back_hard_fixed_offset:
  assumes "\<And>s t. tz s = tz t"
  shows "sorted (map date (sessions (applyRules tz plan context))) \<and>
   (\<forall>i. Suc i < length (sessions (applyRules tz plan context)) \<longrightarrow>
      calendarNextDay (date (sessions (applyRules tz plan context) ! i))
                      (date (sessions (applyRules tz plan context) ! Suc i)) \<longrightarrow>
      \<not> (isHardSession (sessions (applyRules tz plan context) ! i) \<and>
         isHardSession (sessions (applyRules tz plan context) ! Suc i)))"
  unfolding isNextDay_fixed_offset[of tz, OF assms, symmetric]
  by (rule applyRules_no_hard_pair_24h_apart)

lemma backToBackPlan_result:
  "sessions (applyRules utcZone backToBackPlan history300) =
     [\<lparr> date = ''2026-02-10'', sport = bike, title = ''Bike VO2'', durationMin = 70,
        intensity = z5, notes' = None, tags = Some [''vo2''] \<rparr>,
      \<lparr> date = ''2026-02-11'', sport = run, title = ''Run Intervals (downgraded to Z2)'',
        durationMin = 55, intensity = z2,
        notes' = Some ''Downgraded: No back-to-back hard sessions allowed'', tags = None \<rparr>,
      \<lparr> date = ''2026-02-12'', sport = swim, title = ''Swim Technique'', durationMin = 50,
        intensity = z2, notes' = None, tags = None \<rparr>]"
  by (simp add: backToBackPlan_def history300_def rule_defs calendar_defs Let_def
        Math_round_def floor_rat_numeral appendNote_def notesOrEmpty_def trim_def
        isWhiteSpace_def)

text \<open>
  C1. After \<open>applyRules\<close>, two sessions next to each other in date order whose dates differ
  by exactly one calendar day are not both hard. The source tests the difference of the
  two local midnights against 24 hours, and so misses the pair of days around a clock
  change: run in the zone Europe/Prague on hard sessions dated 2026-03-29 and 2026-03-30,
  \<open>applyRules\<close> returns both as they were, one calendar day apart and both hard.
\<close>

theorem applyRules_hard_pair_over_clock_change:
  "sessions (applyRules europePrague clockChangePairPlan history300) = [marchDay1, marchDay2] \<and>
   calendarNextDay (date marchDay1) (date marchDay2) \<and>
   isHardSession marchDay1 \<and> isHardSession marchDay2"
proof -
  have hard: "isHardSession marchDay1" "isHardSession marchDay2"
    by (simp_all add: marchDay1_def marchDay2_def isHardSession_def HARD_INTENSITIES_def)
  have dates: "date marchDay1 = ''2026-03-29''" "date marchDay2 = ''2026-03-30''"
    by (simp_all add: marchDay1_def marchDay2_def)
  have sports: "sport marchDay1 = run" "sport marchDay2 = bike"
    by (simp_all add: marchDay1_def marchDay2_def)
  have minutes: "durationMin marchDay1 = 60" "durationMin marchDay2 = 60"
    by (simp_all add: marchDay1_def marchDay2_def)
  have swim: "applySwimRotationRule clockChangePairPlan = clockChangePairPlan"
    by (simp add: clockChangePairPlan_def applySwimRotationRule_def swimRotationSession_def
          Let_def sports)
  have ready: "applyReadinessDownshiftRule clockChangePairPlan history300 = clockChangePairPlan"
    by (simp add: applyReadinessDownshiftRule_def history300_def)
  have walk: "applyNoHardHardRule europePrague clockChangePairPlan = clockChangePairPlan"
    by (simp add: clockChangePairPlan_def applyNoHardHardRule_def sortByDate_def Let_def
          hard dates clock_change_not_next_day)
  have cap: "applyWeeklyLoadCapRule clockChangePairPlan history300 = clockChangePairPlan"
    by (simp add: clockChangePairPlan_def applyWeeklyLoadCapRule_def history300_def Let_def
          minutes Math_round_def floor_rat_numeral)
  have reset: "clockChangePairPlan\<lparr>warnings := [], appliedRules := []\<rparr> = clockChangePairPlan"
    by (simp add: clockChangePairPlan_def)
  have "applyRules europePrague clockChangePairPlan history300 = clockChangePairPlan"
    by (simp add: applyRules_def Let_def reset swim ready walk cap)
  then have "sessions (applyRules europePrague clockChangePairPlan history300)
               = [marchDay1, marchDay2]"
    by (simp add: clockChangePairPlan_def)
  with hard dates clock_change_calendar(1) show ?thesis by simp
qed

text \<open>The same plan in a zone without clock changes: the second session is downgraded.\<close>

lemma clockChangePairPlan_utcZone:
  "sessions (applyNoHardHardRule utcZone clockChangePairPlan)
     = [marchDay1, downgradeToEasy marchDay2 ''No back-to-back hard sessions allowed'']"
proof -
  have hard: "isHardSession marchDay1" "isHardSession marchDay2"
    by (simp_all add: marchDay1_def marchDay2_def isHardSession_def HARD_INTENSITIES_def)
  have dates: "date marchDay1 = ''2026-03-29''" "date marchDay2 = ''2026-03-30''"
    by (simp_all add: marchDay1_def marchDay2_def)
  have "isNextDay utcZone ''2026-03-29'' ''2026-03-30''"
    by (simp only: isNextDay_utcZone clock_change_calendar)
  then show ?thesis
    by (simp add: clockChangePairPlan_def applyNoHardHardRule_def sortByDate_def Let_def
          hard dates)
qed

section \<open>NoHardHard on three hard days in a row\<close>

lemma sortByDate_three:
  assumes "mset ss = mset [a, b, c]" and "date a < date b" and "date b < date c"
  shows "sortByDate ss = [a, b, c]"
  unfolding sortByDate_def
proof (rule properties_for_sort_key)
  show "mset [a, b, c] = mset ss" using assms(1) by simp
  show "sorted (map date [a, b, c])" using assms(2,3) by auto
  fix k assume k: "k \<in> set [a, b, c]"
  have "mset (filter (\<lambda>x. date k = date x) ss) = mset (filter (\<lambda>x. date k = date x) [a, b, c])"
    by (simp only: mset_filter assms(1))
  moreover have "filter (\<lambda>x. date k = date x) [a, b, c] = [k]"
    using k assms(2,3) by auto
  ultimately have "mset (filter (\<lambda>x. date k = date x) ss) = {#k#}" by simp
  then have "filter (\<lambda>x. date k = date x) ss = [k]" by (simp only: mset_single_iff)
  then show "filter (\<lambda>x. date k = date x) [a, b, c] = filter (\<lambda>x. date k = date x) ss"
    using \<open>filter (\<lambda>x. date k = date x) [a, b, c] = [k]\<close> by simp
qed

text \<open>
  In a zone without clock changes, for three hard sessions on three consecutive calendar
  days, whatever their order in the list: the session of the first day is as it was, that of
  the second day is downgraded to z2, and that of the third day is as it was, because the
  walk reaches it with \<open>previousWasHard\<close> false.
\<close>

lemma noHardHard_three_consecutive_days_fixed_offset:
  assumes "\<And>s t. tz s = tz t"
      and "mset (sessions plan) = mset [a, b, c]"
      and "calendarNextDay (date a) (date b)" and "calendarNextDay (date b) (date c)"
      and "isHardSession a" and "isHardSession b" and "isHardSession c"
  shows "sessions (applyNoHardHardRule tz plan)
           = [a, downgradeToEasy b ''No back-to-back hard sessions allowed'', c] \<and>
         isHardSession (sessions (applyNoHardHardRule tz plan) ! 0) \<and>
         intensity (sessions (applyNoHardHardRule tz plan) ! 1) = z2 \<and>
         \<not> isHardSession (sessions (applyNoHardHardRule tz plan) ! 1) \<and>
         isHardSession (sessions (applyNoHardHardRule tz plan) ! 2)"
proof -
  have ab: "isNextDay tz (date a) (date b)" and bc: "isNextDay tz (date b) (date c)"
    using assms(3,4) by (simp_all only: isNextDay_fixed_offset[of tz, OF assms(1)])
  have sorted3: "sortByDate (sessions plan) = [a, b, c]"
    using assms(2) calendarNextDay_less[OF assms(3)] calendarNextDay_less[OF assms(4)]
    by (rule sortByDate_three)
  have a_date: "date a \<noteq> []" using ab isNextDay_empty by auto
  have b_date: "date b \<noteq> []" using bc isNextDay_empty by auto
  have walk: "noHardHardLoop tz False None [a, b, c] =
      [(a, False), (downgradeToEasy b ''No back-to-back hard sessions allowed'', True), (c, False)]"
    by (simp add: Let_def ab bc assms(5-7) a_date b_date)
  have out: "sessions (applyNoHardHardRule tz plan)
           = [a, downgradeToEasy b ''No back-to-back hard sessions allowed'', c]"
    by (simp add: applyNoHardHardRule_def Let_def sorted3 walk del: noHardHardLoop.simps)
  show ?thesis
    using assms(5,7) by (simp add: out downgradeToEasy_not_hard downgradeToEasy_intensity)
qed

lemma threeHardPlan_utcZone:
  "sessions (applyNoHardHardRule utcZone threeHardPlan)
     = [hardDay1, downgradeToEasy hardDay2 ''No back-to-back hard sessions allowed'', hardDay3]"
proof -
  have perm: "mset (sessions threeHardPlan) = mset [hardDay1, hardDay2, hardDay3]"
    by (simp add: threeHardPlan_def)
  have d12: "calendarNextDay (date hardDay1) (date hardDay2)"
    by (simp add: hardDay1_def hardDay2_def calendar_defs)
  have d23: "calendarNextDay (date hardDay2) (date hardDay3)"
    by (simp add: hardDay2_def hardDay3_def calendar_defs)
  have h1: "isHardSession hardDay1" and h2: "isHardSession hardDay2"
    and h3: "isHardSession hardDay3"
    by (simp_all add: hardDay1_def hardDay2_def hardDay3_def isHardSession_def
          HARD_INTENSITIES_def)
  have fixed: "\<And>s t. utcZone s = utcZone t" by (simp add: utcZone_def)
  from noHardHard_three_consecutive_days_fixed_offset[of utcZone, OF fixed perm d12 d23 h1 h2 h3]
  show ?thesis by blast
qed

text \<open>
  C5. For a plan of three hard sessions on three consecutive dates, after the NoHardHard
  rule the first day's session remains hard, the second day's is downgraded to z2, and the
  third day's remains hard. The source misses this around a clock change: run in the zone
  Europe/Prague on hard sessions dated 2026-03-29, 2026-03-30 and 2026-03-31, the rule finds
  the first two midnights 23 hours apart, leaves the second day's session hard, and
  downgrades the third day's instead.
\<close>

theorem noHardHard_three_days_over_clock_change:
  "calendarNextDay (date marchDay1) (date marchDay2) \<and>
   calendarNextDay (date marchDay2) (date marchDay3) \<and>
   isHardSession marchDay1 \<and> isHardSession marchDay2 \<and> isHardSession marchDay3 \<and>
   sessions (applyNoHardHardRule europePrague clockChangeThreePlan)
     = [marchDay1, marchDay2,
        downgradeToEasy marchDay3 ''No back-to-back hard sessions allowed''] \<and>
   isHardSession (sessions (applyNoHardHardRule europePrague clockChangeThreePlan) ! 1) \<and>
   intensity (sessions (applyNoHardHardRule europePrague clockChangeThreePlan) ! 2) = z2"
proof -
  have hard: "isHardSession marchDay1" "isHardSession marchDay2" "isHardSession marchDay3"
    by (simp_all add: marchDay1_def marchDay2_def marchDay3_def isHardSession_def
          HARD_INTENSITIES_def)
  have dates: "date marchDay1 = ''2026-03-29''" "date marchDay2 = ''2026-03-30''"
    "date marchDay3 = ''2026-03-31''"
    by (simp_all add: marchDay1_def marchDay2_def marchDay3_def)
  have out: "sessions (applyNoHardHardRule europePrague clockChangeThreePlan)
     = [marchDay1, marchDay2,
        downgradeToEasy marchDay3 ''No back-to-back hard sessions allowed'']"
    by (simp add: clockChangeThreePlan_def applyNoHardHardRule_def sortByDate_def Let_def
          hard dates clock_change_not_next_day)
  show ?thesis
    by (simp add: out hard dates clock_change_calendar downgradeToEasy_intensity)
qed

section \<open>SwimRotation\<close>

lemma swimRotationSession_idem:
  "swimRotationSession (fst (swimRotationSession s)) = (fst (swimRotationSession s), False)"
  by (auto simp: swimRotationSession_def Let_def tagsInclude_def)

lemma swimRotation_sessions_idem:
  "map fst (map swimRotationSession (map fst (map swimRotationSession ss)))
     = map fst (map swimRotationSession ss)"
  by (induction ss) (simp_all add: swimRotationSession_idem)

lemma swimRotation_no_second_edit:
  "\<not> list_ex snd (map swimRotationSession (map fst (map swimRotationSession ss)))"
  by (induction ss) (simp_all add: swimRotationSession_idem)

text \<open>
  C6. SwimRotation is idempotent: applying the rule to its own output gives that output
  again; no session is edited a second time and no second entry is appended to the
  applied rules.
\<close>

theorem swimRotation_idempotent:
  "applySwimRotationRule (applySwimRotationRule plan) = applySwimRotationRule plan"
proof -
  let ?once = "applySwimRotationRule plan"
  have s1: "sessions ?once = map fst (map swimRotationSession (sessions plan))"
    by (simp add: applySwimRotationRule_def Let_def)
  have again: "map fst (map swimRotationSession (sessions ?once)) = sessions ?once"
    by (simp only: s1 swimRotation_sessions_idem)
  have quiet: "\<not> list_ex snd (map swimRotationSession (sessions ?once))"
    by (simp only: s1 swimRotation_no_second_edit not_False_eq_True)
  have "applySwimRotationRule ?once =
        ?once\<lparr> sessions := map fst (map swimRotationSession (sessions ?once)),
                 appliedRules := appliedRules ?once \<rparr>"
    unfolding applySwimRotationRule_def[of ?once] Let_def using quiet by simp
  also have "\<dots> = ?once"
    by (simp only: again) simp
  finally show ?thesis .
qed

text \<open>The rule does edit: on the example both swims are rewritten and one entry is recorded.\<close>

lemma swimPlan_rotated:
  "map (\<lambda>s. (title s, tags s, intensity s)) (sessions (applySwimRotationRule swimPlan))
     = [(''Swim Technique'', Some [''technique''], z4),
        (''Swim Intervals'', Some [''intervals''], z4)] \<and>
   appliedRules (applySwimRotationRule swimPlan)
     = [''SwimRotation: Adjusted swim sessions to match Wed=technique, Fri=intervals'']"
  by (simp add: swimPlan_def applySwimRotationRule_def swimRotationSession_def Let_def
        tagsInclude_def calendar_defs)

section \<open>WeeklyLoadCap\<close>

lemma foldl_durationMin:
  "foldl (\<lambda>sum s. sum + durationMin s) a ss = a + sum_list (map durationMin ss)"
  by (induction ss arbitrary: a) simp_all

lemma weeklyLoadCap_fires:
  assumes "totalMinutes (last7dStats context) \<noteq> 0"
      and "appliedCap context < plannedMinutes plan"
  shows "sessions (applyWeeklyLoadCapRule plan context) =
           map (loadCapSession (of_int (appliedCap context) / of_int (plannedMinutes plan)))
               (sessions plan)"
  using assms
  by (simp add: applyWeeklyLoadCapRule_def Let_def foldl_durationMin appliedCap_def
        plannedMinutes_def)


lemma Math_round_nonneg: "0 \<le> x \<Longrightarrow> 0 \<le> Math_round x"
  by (simp add: Math_round_def)

lemma appliedCap_nonneg:
  "0 < totalMinutes (last7dStats context) \<Longrightarrow> 0 \<le> appliedCap context"
  by (simp add: appliedCap_def Math_round_nonneg)

lemma scale_bounds:
  assumes "0 \<le> (m::int)" and "m < p"
  shows "0 \<le> (of_int m / of_int p :: rat)" and "(of_int m / of_int p :: rat) < 1"
  using assms by simp_all

lemma loadCapSession_duration:
  "sport s \<noteq> rest \<Longrightarrow> 0 < durationMin s \<Longrightarrow>
   durationMin (loadCapSession k s) = max 30 (Math_round (of_int (durationMin s) * k))"
  by (simp add: loadCapSession_def Let_def)

lemma loadCapSession_floor:
  assumes "sport s \<noteq> rest" and "0 < durationMin s"
  shows "30 \<le> durationMin (loadCapSession k s)"
  using assms by (simp add: loadCapSession_duration)

lemma loadCapSession_short:
  assumes "sport s \<noteq> rest" and "0 < durationMin s" and "durationMin s < 30"
      and "0 \<le> k" and "k < 1"
  shows "durationMin (loadCapSession k s) = 30"
proof -
  have "of_int (durationMin s) * k \<le> of_int (durationMin s)"
    using assms by (simp add: mult_left_le)
  also have "\<dots> \<le> (29 :: rat)"
  proof -
    from assms(3) have "durationMin s \<le> 29" by simp
    then have "(of_int (durationMin s) :: rat) \<le> of_int 29" by (simp only: of_int_le_iff)
    then show ?thesis by simp
  qed
  finally have "of_int (durationMin s) * k + 1 / 2 < (30 :: rat)" by simp
  then have "Math_round (of_int (durationMin s) * k) < 30"
    unfolding Math_round_def by (simp add: floor_less_iff)
  then show ?thesis
    using assms by (simp add: loadCapSession_duration)
qed

text \<open>
  C9. When the WeeklyLoadCap rule fires (last week's minutes are positive and the planned
  minutes exceed the cap), every non-rest session of positive duration ends with at least
  30 minutes; a non-rest session of a duration strictly between 0 and 30 ends with exactly
  30 minutes, so the capping rule lengthens it.
\<close>

theorem weeklyLoadCap_floor:
  assumes "0 < totalMinutes (last7dStats context)"
      and "appliedCap context < plannedMinutes plan"
  shows "\<forall>i < length (sessions plan).
           sport (sessions plan ! i) \<noteq> rest \<and> 0 < durationMin (sessions plan ! i) \<longrightarrow>
             30 \<le> durationMin (sessions (applyWeeklyLoadCapRule plan context) ! i) \<and>
             (durationMin (sessions plan ! i) < 30 \<longrightarrow>
                durationMin (sessions (applyWeeklyLoadCapRule plan context) ! i) = 30)"
proof (intro allI impI)
  fix i
  assume i: "i < length (sessions plan)"
    and s: "sport (sessions plan ! i) \<noteq> rest \<and> 0 < durationMin (sessions plan ! i)"
  let ?k = "of_int (appliedCap context) / of_int (plannedMinutes plan) :: rat"
  have out: "sessions (applyWeeklyLoadCapRule plan context) ! i
               = loadCapSession ?k (sessions plan ! i)"
    using weeklyLoadCap_fires[of "context" plan] assms i by simp
  have k: "0 \<le> ?k" "?k < 1"
    using scale_bounds[OF appliedCap_nonneg[OF assms(1)] assms(2)] by simp_all
  show "30 \<le> durationMin (sessions (applyWeeklyLoadCapRule plan context) ! i) \<and>
        (durationMin (sessions plan ! i) < 30 \<longrightarrow>
           durationMin (sessions (applyWeeklyLoadCapRule plan context) ! i) = 30)"
    using s k loadCapSession_floor[of "sessions plan ! i" ?k]
      loadCapSession_short[of "sessions plan ! i" ?k]
    by (simp add: out)
qed

theorem weeklyLoadCap_floor_witness:
  "0 < totalMinutes (last7dStats history50) \<and>
   appliedCap history50 < plannedMinutes shortPlan \<and>
   sport (sessions shortPlan ! 0) \<noteq> rest \<and>
   0 < durationMin (sessions shortPlan ! 0) \<and> durationMin (sessions shortPlan ! 0) < 30 \<and>
   durationMin (sessions (applyWeeklyLoadCapRule shortPlan history50) ! 0) = 30"
proof -
  have history: "0 < totalMinutes (last7dStats history50)"
    by (simp add: history50_def)
  have over: "appliedCap history50 < plannedMinutes shortPlan"
    by (simp add: appliedCap_def history50_def Math_round_def floor_rat_numeral
          plannedMinutes_def shortPlan_def)
  have first: "0 < length (sessions shortPlan)"
    "sport (sessions shortPlan ! 0) \<noteq> rest"
    "0 < durationMin (sessions shortPlan ! 0)" "durationMin (sessions shortPlan ! 0) < 30"
    by (simp_all add: shortPlan_def)
  from weeklyLoadCap_floor[OF history over] first
  have "durationMin (sessions (applyWeeklyLoadCapRule shortPlan history50) ! 0) = 30"
    by blast
  with history over first show ?thesis by blast
qed








section \<open>Applied rules as an audit trail\<close>

lemma swimRotationSession_changed:
  "snd (swimRotationSession s) \<longleftrightarrow> fst (swimRotationSession s) \<noteq> s"
proof -
  have "s\<lparr>title := t, tags := Some [g], notes' := n\<rparr> \<noteq> s" if "\<not> tagsInclude (tags s) g" for t g n
  proof
    assume "s\<lparr>title := t, tags := Some [g], notes' := n\<rparr> = s"
    then have "tags (s\<lparr>title := t, tags := Some [g], notes' := n\<rparr>) = tags s" by simp
    with that show False by (cases "tags s") (auto simp: tagsInclude_def)
  qed
  moreover have "s\<lparr>title := t, tags := Some [g], intensity := i, notes' := n\<rparr> \<noteq> s"
    if "\<not> tagsInclude (tags s) g" for t g n i
  proof
    assume "s\<lparr>title := t, tags := Some [g], intensity := i, notes' := n\<rparr> = s"
    then have "tags (s\<lparr>title := t, tags := Some [g], intensity := i, notes' := n\<rparr>) = tags s" by simp
    with that show False by (cases "tags s") (auto simp: tagsInclude_def)
  qed
  ultimately show ?thesis
    by (simp add: swimRotationSession_def Let_def)
qed

lemma readinessDownshiftSession_changed:
  "snd (readinessDownshiftSession d r s) \<longleftrightarrow> fst (readinessDownshiftSession d r s) \<noteq> s"
  by (simp add: readinessDownshiftSession_def downgradeToEasy_neq)

lemma map_changed:
  assumes "\<And>s. snd (f s) \<longleftrightarrow> fst (f s) \<noteq> s"
  shows "list_ex snd (map f ss) \<longleftrightarrow> map fst (map f ss) \<noteq> ss"
  by (induction ss) (auto simp: assms)

lemma noHardHardLoop_changed:
  "list_ex snd (noHardHardLoop tz pw pd ss) \<longleftrightarrow> map fst (noHardHardLoop tz pw pd ss) \<noteq> ss"
  by (induction ss arbitrary: pw pd) (auto simp: Let_def downgradeToEasy_neq)

text \<open>
  The other three rules do keep to it: each appends its entry exactly when it changed a
  session (for NoHardHard, against the sessions sorted by date).
\<close>

lemma first_three_rules_record_changes:
  "(appliedRules (applySwimRotationRule plan) \<noteq> appliedRules plan
      \<longleftrightarrow> sessions (applySwimRotationRule plan) \<noteq> sessions plan) \<and>
   (appliedRules (applyReadinessDownshiftRule plan context) \<noteq> appliedRules plan
      \<longleftrightarrow> sessions (applyReadinessDownshiftRule plan context) \<noteq> sessions plan) \<and>
   (appliedRules (applyNoHardHardRule tz plan) \<noteq> appliedRules plan
      \<longleftrightarrow> sessions (applyNoHardHardRule tz plan) \<noteq> sortByDate (sessions plan))"
proof (intro conjI)
  show "appliedRules (applySwimRotationRule plan) \<noteq> appliedRules plan
      \<longleftrightarrow> sessions (applySwimRotationRule plan) \<noteq> sessions plan"
    using map_changed[of swimRotationSession "sessions plan", OF swimRotationSession_changed]
    by (simp add: applySwimRotationRule_def Let_def del: map_map)
  show "appliedRules (applyReadinessDownshiftRule plan context) \<noteq> appliedRules plan
      \<longleftrightarrow> sessions (applyReadinessDownshiftRule plan context) \<noteq> sessions plan"
  proof (cases "todayFatigue context")
    case None
    then show ?thesis by (simp add: applyReadinessDownshiftRule_def)
  next
    case (Some f)
    show ?thesis
      using map_changed[of "readinessDownshiftSession (startDate plan) (readiness f)"
          "sessions plan", OF readinessDownshiftSession_changed]
      by (simp add: applyReadinessDownshiftRule_def Let_def Some del: map_map)
  qed
  show "appliedRules (applyNoHardHardRule tz plan) \<noteq> appliedRules plan
      \<longleftrightarrow> sessions (applyNoHardHardRule tz plan) \<noteq> sortByDate (sessions plan)"
    using noHardHardLoop_changed[of tz False None "sortByDate (sessions plan)"]
    by (simp add: applyNoHardHardRule_def Let_def)
qed

text \<open>
  C4. An entry is appended to the applied rules exactly when the rule changed a session.
  WeeklyLoadCap does not keep to this: with two 30-minute sessions against 40 minutes last
  week the planned 60 minutes exceed the cap of 44, every session is returned as it was
  (the scaled 22 minutes are raised to the minimum of 30), and yet the entry
  "Scaled durations from 60min to 44min" is appended.
\<close>

theorem weeklyLoadCap_entry_without_change:
  "sessions (applyWeeklyLoadCapRule flooredPlan history40) = sessions flooredPlan \<and>
   appliedRules (applyWeeklyLoadCapRule flooredPlan history40)
     = appliedRules flooredPlan @ [''WeeklyLoadCap: Scaled durations from 60min to 44min'']"
  by (simp add: flooredPlan_def history40_def applyWeeklyLoadCapRule_def loadCapSession_def
        Let_def Math_round_def floor_rat_numeral showInt_def digitChar_def)

end
